theory Spec2Isabelle
  imports Main "HOL-Library.Word"
begin

section \<open>The HTTP client service: connection health and static values\<close>

text \<open>
  A shallow embedding of \<^verbatim>\<open>http/service.go\<close>. The service is a record that every
  operation takes and returns. What an operation does beyond changing the record (calls
  to the beacon node, log calls, metrics calls, goroutines started) is returned as a list
  of events, in program order.

  The mutexes of the Go struct are not fields of the record: every operation of the model
  runs from start to end on its own, which is what the locks give each critical section.
  The one synchronisation object that decides a branch, the ping semaphore, is modelled
  with its counter, so that a ping that arrives while another ping holds the permit is the
  ping of a record whose counter is at its capacity.
\<close>

subsection \<open>Errors, contexts, events\<close>

text \<open>
  \<^verbatim>\<open>client.ErrNotActive\<close> and \<^verbatim>\<open>client.ErrNotSynced\<close> are the two sentinel errors of
  the client package; \<^verbatim>\<open>errors.New\<close> and \<^verbatim>\<open>errors.Join\<close> build the others.
\<close>

datatype error =
    ErrNotActive
  | ErrNotSynced
  | errors_New string
  | errors_Join error error

text \<open>
  A \<^verbatim>\<open>context.Context\<close>, as far as this file can tell contexts apart: the background
  context, which is never cancelled, and a context of the caller with its cancellation
  state.
\<close>

datatype Context = Background | Caller (cancelled: bool)

datatype level = Trace | Debug | Error

datatype event =
    CallNodeSyncing Context
  | CallNodeVersion Context
  | CallRegisterMetrics Context
  | Log level string
  | MonitorActive bool
  | MonitorSynced bool
  | Go string

subsection \<open>The beacon node and the host\<close>

text \<open>
  \<^verbatim>\<open>apiv1.SyncState\<close>, the payload of the sync-status reply, with the three fields that
  \<^verbatim>\<open>ping\<close> reads. A \<^verbatim>\<open>phase0.Slot\<close> is a \<^verbatim>\<open>uint64\<close>.
\<close>

record SyncState =
  HeadSlot :: "64 word"
  SyncDistance :: "64 word"
  IsSyncing :: bool

text \<open>
  \<^verbatim>\<open>Service.NodeSyncing\<close> and \<^verbatim>\<open>Service.NodeVersion\<close> live in other files of the
  package. Their outcome is a parameter of the model: for the context a call is made
  with, either an error or the \<^verbatim>\<open>Data\<close> of the response. What \<^verbatim>\<open>NodeVersion\<close> may
  store in the \<^verbatim>\<open>nodeVersion\<close> field on the way is outside this file and not part of
  the model.
\<close>

record node =
  NodeSyncing :: "Context \<Rightarrow> error + SyncState"
  NodeVersion :: "Context \<Rightarrow> error + string"

text \<open>
  What \<^verbatim>\<open>New\<close> uses from outside this file: \<^verbatim>\<open>registerMetrics\<close> (package code in
  another file) and \<^verbatim>\<open>url.Parse\<close> (standard library), both as parameters. The type
  \<open>'m\<close> stands for the metrics service, \<open>'u\<close> for \<^verbatim>\<open>*url.URL\<close>.
\<close>

record ('m, 'u) host =
  registerMetrics :: "Context \<Rightarrow> 'm \<Rightarrow> error option"
  url_Parse :: "string \<Rightarrow> error + 'u"

subsection \<open>Parameters and the service\<close>

text \<open>
  The fields of \<^verbatim>\<open>parameters\<close> that \<^verbatim>\<open>New\<close> reads. Durations are nanosecond counts.
\<close>

record 'm parameters =
  logLevel :: int
  monitor :: "'m option"
  timeout :: int
  address :: string
  indexChunkSize :: int
  pubKeyChunkSize :: int
  extraHeaders :: "string \<rightharpoonup> string"
  enforceJSON :: bool
  allowDelayedStart :: bool

text \<open>
  \<^verbatim>\<open>semaphore.Weighted\<close>: \<^verbatim>\<open>TryAcquire(n)\<close> succeeds when \<^verbatim>\<open>size - cur >= n\<close> and nobody
  waits (nothing in this package ever waits: only \<^verbatim>\<open>TryAcquire\<close> is used), and then adds
  \<open>n\<close> to \<^verbatim>\<open>cur\<close>; \<^verbatim>\<open>Release(n)\<close> subtracts it. \<^verbatim>\<open>Release\<close> panics when \<^verbatim>\<open>cur\<close>
  falls below zero; \<^verbatim>\<open>ping\<close>, its only caller, releases the one permit it has just
  acquired, so the counter is back at its value before the call.
\<close>

record Weighted =
  size :: int
  cur :: int

definition NewWeighted :: "int \<Rightarrow> Weighted" where
  "NewWeighted n = \<lparr>size = n, cur = 0\<rparr>"

definition TryAcquire :: "int \<Rightarrow> Weighted \<Rightarrow> bool \<times> Weighted" where
  "TryAcquire n sem =
     (if size sem - cur sem \<ge> n then (True, sem\<lparr>cur := cur sem + n\<rparr>) else (False, sem))"

definition Release :: "int \<Rightarrow> Weighted \<Rightarrow> Weighted" where
  "Release n sem = sem\<lparr>cur := cur sem - n\<rparr>"

text \<open>
  The \<^verbatim>\<open>Service\<close> struct. A nil pointer, map or slice is \<open>None\<close>; the node version is
  a string, empty when not fetched. The payload types are parameters: \<open>'u\<close> the URL,
  \<open>'g\<close> the genesis, \<open>'p\<close> the spec map, \<open>'d\<close> the deposit contract, \<open>'f\<close> the
  fork schedule. The logger and the HTTP client hold no state that this file reads.
\<close>

record ('u, 'g, 'p, 'd, 'f) Service =
  base :: 'u
  address :: string
  timeout :: int
  genesis :: "'g option"
  spec :: "'p option"
  depositContract :: "'d option"
  forkSchedule :: "'f option"
  nodeVersion :: string
  userIndexChunkSize :: int
  userPubKeyChunkSize :: int
  extraHeaders :: "string \<rightharpoonup> string"
  pingSem :: Weighted
  connectionActive :: bool
  connectionSynced :: bool
  enforceJSON :: bool
  connectedToDVTMiddleware :: bool

subsection \<open>Strings\<close>

text \<open>
  \<^verbatim>\<open>strings.ToLower\<close> on the bytes of a string: the ASCII capitals move to their small
  letters. Go also lowers capitals beyond ASCII, which are several bytes before and
  after, except the Kelvin sign and the dotted capital I, which become \<open>k\<close> and \<open>i\<close>;
  no letter of \<open>charon\<close> is among them, so the search below sees the same answer.
\<close>

definition toLowerByte :: "char \<Rightarrow> char" where
  "toLowerByte c =
     (let n = (of_char c :: nat) in if 65 \<le> n \<and> n \<le> 90 then char_of (n + 32) else c)"

definition ToLower :: "string \<Rightarrow> string" where
  "ToLower s = map toLowerByte s"

text \<open>
  \<^verbatim>\<open>strings.HasPrefix\<close> and \<^verbatim>\<open>strings.HasSuffix\<close> compare the lengths and then the
  slice at the front or at the back; \<^verbatim>\<open>strings.Contains\<close> holds when the substring
  starts at some index.
\<close>

definition HasPrefix :: "string \<Rightarrow> string \<Rightarrow> bool" where
  "HasPrefix s p = (length s \<ge> length p \<and> take (length p) s = p)"

definition HasSuffix :: "string \<Rightarrow> string \<Rightarrow> bool" where
  "HasSuffix s p = (length s \<ge> length p \<and> drop (length s - length p) s = p)"

fun Contains :: "string \<Rightarrow> string \<Rightarrow> bool" where
  "Contains [] substr = (substr = [])"
| "Contains (c # cs) substr = (HasPrefix (c # cs) substr \<or> Contains cs substr)"

subsection \<open>Static values and the middleware check\<close>

definition clearStaticValues ::
  "('u, 'g, 'p, 'd, 'f) Service \<Rightarrow> ('u, 'g, 'p, 'd, 'f) Service" where
  "clearStaticValues s =
     s\<lparr>genesis := None, spec := None, depositContract := None, forkSchedule := None,
       nodeVersion := ''''\<rparr>"

definition checkDVT ::
  "node \<Rightarrow> Context \<Rightarrow> ('u, 'g, 'p, 'd, 'f) Service
     \<Rightarrow> error option \<times> ('u, 'g, 'p, 'd, 'f) Service \<times> event list" where
  "checkDVT nd ctx s =
     (case NodeVersion nd ctx of
        Inl err \<Rightarrow>
          (Some (errors_Join (errors_New ''failed to obtain node version for DVT check'') err),
           s, [CallNodeVersion ctx])
      | Inr response \<Rightarrow>
          (let version = ToLower response
           in (None,
               if Contains version ''charon'' then s\<lparr>connectedToDVTMiddleware := True\<rparr> else s,
               [CallNodeVersion ctx])))"

definition Name :: "('u, 'g, 'p, 'd, 'f) Service \<Rightarrow> string" where
  "Name s = ''Standard (HTTP)''"

definition Address :: "('u, 'g, 'p, 'd, 'f) Service \<Rightarrow> string" where
  "Address s = Service.address s"

subsection \<open>The ping\<close>

text \<open>
  \<^verbatim>\<open>ping\<close> ignores the context it is given and works under \<^verbatim>\<open>context.Background()\<close>.
  It reads the stored pair, tries the semaphore, asks the node for its sync state when it
  holds the permit, runs the side effect of the transition it sees, and stores the new
  pair. The result is the service after the call and the events of the call.
\<close>

definition ping ::
  "node \<Rightarrow> Context \<Rightarrow> ('u, 'g, 'p, 'd, 'f) Service
     \<Rightarrow> ('u, 'g, 'p, 'd, 'f) Service \<times> event list" where
  "ping nd ctx0 s =
     (let ctx = Background;
          wasActive = connectionActive s;
          wasSynced = connectionSynced s;
          (acquired, sem1) = TryAcquire 1 (pingSem s);
          s1 = s\<lparr>pingSem := sem1\<rparr>;
          (active, synced, s2, t1) =
            (if \<not> acquired then (wasActive, wasSynced, s1, [])
             else
               (case NodeSyncing nd ctx of
                  Inl err \<Rightarrow>
                    (False, False, s1\<lparr>pingSem := Release 1 (pingSem s1)\<rparr>,
                     [CallNodeSyncing ctx, Log Debug ''Failed to obtain sync state from node''])
                | Inr response \<Rightarrow>
                    (True,
                     (\<not> IsSyncing response)
                       \<or> (HeadSlot response = 0 \<and> SyncDistance response \<le> 1),
                     s1\<lparr>pingSem := Release 1 (pingSem s1)\<rparr>,
                     [CallNodeSyncing ctx])));
          (active', s3, t2) =
            (if \<not> wasActive \<and> active then
               (case checkDVT nd ctx s2 of
                  (Some err, s', t) \<Rightarrow>
                    (False, s',
                     t @ [Log Error
                       ''Failed to check DVT connection on client activation; returning to inactive''])
                | (None, s', t) \<Rightarrow> (active, s', t))
             else if wasActive \<and> \<not> active then (active, clearStaticValues s2, [])
             else (active, s2, []));
          s4 = s3\<lparr>connectionActive := active', connectionSynced := synced\<rparr>
      in (s4,
          t1 @ t2 @ [Log Trace ''Updated connection state'',
                     MonitorActive active', MonitorSynced synced]))"

definition IsActive :: "Context \<Rightarrow> ('u, 'g, 'p, 'd, 'f) Service \<Rightarrow> bool" where
  "IsActive ctx0 s = connectionActive s"

definition IsSynced :: "Context \<Rightarrow> ('u, 'g, 'p, 'd, 'f) Service \<Rightarrow> bool" where
  "IsSynced ctx0 s = connectionSynced s"

subsection \<open>The guards\<close>

text \<open>
  The guards return the error (\<open>None\<close> is Go's \<^verbatim>\<open>nil\<close>), the service after the call
  and the events of the call.
\<close>

definition assertIsActive ::
  "node \<Rightarrow> Context \<Rightarrow> ('u, 'g, 'p, 'd, 'f) Service
     \<Rightarrow> error option \<times> ('u, 'g, 'p, 'd, 'f) Service \<times> event list" where
  "assertIsActive nd ctx s =
     (if IsActive ctx s then (None, s, [])
      else
        (let (s', t) = ping nd ctx s
         in if \<not> IsActive ctx s' then (Some ErrNotActive, s', t) else (None, s', t)))"

definition assertIsSynced ::
  "node \<Rightarrow> Context \<Rightarrow> ('u, 'g, 'p, 'd, 'f) Service
     \<Rightarrow> error option \<times> ('u, 'g, 'p, 'd, 'f) Service \<times> event list" where
  "assertIsSynced nd ctx s =
     (if IsSynced ctx s then (None, s, [])
      else
        (let (s', t) = ping nd ctx s
         in if \<not> IsActive ctx s' then (Some ErrNotActive, s', t)
            else if \<not> IsSynced ctx s' then (Some ErrNotSynced, s', t)
            else (None, s', t)))"

subsection \<open>Construction\<close>

text \<open>
  The address that \<^verbatim>\<open>New\<close> hands to \<^verbatim>\<open>url.Parse\<close>: \<^verbatim>\<open>http://\<close> in front unless the
  address starts with \<^verbatim>\<open>http\<close>, and a slash behind unless it ends with one.
\<close>

definition normalise :: "string \<Rightarrow> string" where
  "normalise a =
     (let a1 = (if \<not> HasPrefix a ''http'' then ''http://'' @ a else a)
      in if \<not> HasSuffix a1 ''/'' then a1 @ ''/'' else a1)"

text \<open>
  The struct literal of \<^verbatim>\<open>New\<close>: the fields it names, and Go's zero value for the others.
\<close>

definition newService ::
  "'m parameters \<Rightarrow> 'u \<Rightarrow> ('u, 'g, 'p, 'd, 'f) Service" where
  "newService p b =
     \<lparr>base = b,
      address = parameters.address p,
      timeout = parameters.timeout p,
      genesis = None,
      spec = None,
      depositContract = None,
      forkSchedule = None,
      nodeVersion = [],
      userIndexChunkSize = indexChunkSize p,
      userPubKeyChunkSize = pubKeyChunkSize p,
      extraHeaders = parameters.extraHeaders p,
      pingSem = NewWeighted 1,
      connectionActive = False,
      connectionSynced = False,
      enforceJSON = parameters.enforceJSON p,
      connectedToDVTMiddleware = False\<rparr>"

text \<open>
  \<^verbatim>\<open>New\<close>. The outcome of \<^verbatim>\<open>parseAndCheckParameters\<close> (another file of the package) is
  the argument \<open>parsed\<close>. The result is Go's pair: an error and no service, or the
  service; the events are those of the whole call. The two periodic loops and the closer
  are goroutines: the model records that they are started, and the service returned is
  the one at the moment \<^verbatim>\<open>New\<close> returns.
\<close>

definition New ::
  "('m, 'u) host \<Rightarrow> node \<Rightarrow> Context \<Rightarrow> error + 'm parameters
     \<Rightarrow> (error + ('u, 'g, 'p, 'd, 'f) Service) \<times> event list" where
  "New h nd ctx parsed =
     (case parsed of
        Inl err \<Rightarrow> (Inl (errors_Join (errors_New ''problem with parameters'') err), [])
      | Inr p \<Rightarrow>
          (let (merr, t0) =
                 (case monitor p of
                    None \<Rightarrow> (None, [])
                  | Some m \<Rightarrow> (registerMetrics h ctx m, [CallRegisterMetrics ctx]))
           in case merr of
                Some err \<Rightarrow> (Inl (errors_Join (errors_New ''failed to register metrics'') err), t0)
              | None \<Rightarrow>
                  (case url_Parse h (normalise (parameters.address p)) of
                     Inl err \<Rightarrow> (Inl (errors_Join (errors_New ''invalid URL'') err), t0)
                   | Inr b \<Rightarrow>
                       (let (s, t1) = ping nd ctx (newService p b);
                            active = IsActive ctx s
                        in if \<not> active \<and> \<not> allowDelayedStart p
                           then (Inl ErrNotActive, t0 @ t1)
                           else (Inr s,
                                 t0 @ t1 @ [Go ''periodicClearStaticValues'', Go ''periodicPing'',
                                            Go ''close on context done''])))))"

subsection \<open>Histories\<close>

text \<open>
  The operations of this file that change a service after construction, each with the
  replies the node gives during it, and a run of them in order: the histories of a
  service value as far as this file drives it.
\<close>

datatype op =
    Ping node Context
  | ClearStaticValues
  | AssertIsActive node Context
  | AssertIsSynced node Context

fun apply_op ::
  "op \<Rightarrow> ('u, 'g, 'p, 'd, 'f) Service \<Rightarrow> ('u, 'g, 'p, 'd, 'f) Service" where
  "apply_op (Ping nd ctx) s = fst (ping nd ctx s)"
| "apply_op ClearStaticValues s = clearStaticValues s"
| "apply_op (AssertIsActive nd ctx) s = fst (snd (assertIsActive nd ctx s))"
| "apply_op (AssertIsSynced nd ctx) s = fst (snd (assertIsSynced nd ctx s))"

fun run ::
  "op list \<Rightarrow> ('u, 'g, 'p, 'd, 'f) Service \<Rightarrow> ('u, 'g, 'p, 'd, 'f) Service" where
  "run [] s = s"
| "run (x # xs) s = run xs (apply_op x s)"

subsection \<open>The fact accessors\<close>

text \<open>
  Modelled from the spec: the accessors of the static values (\<^verbatim>\<open>Genesis\<close>, \<^verbatim>\<open>Spec\<close>,
  \<^verbatim>\<open>DepositContract\<close>, \<^verbatim>\<open>ForkSchedule\<close>, and \<^verbatim>\<open>NodeVersion\<close> as a cache) are in
  other files of the package. Section 4.4 of the specification gives their contract:
  an accessor "fetches and populates on first call after being empty, returns the cached
  value otherwise", and a failed fetch "does not populate the cache". The result is the
  value or the error, the slot after the call, and whether a fetch was made.
\<close>

definition getFact :: "'a option \<Rightarrow> error + 'a \<Rightarrow> (error + 'a) \<times> 'a option \<times> bool" where
  "getFact slot fetch =
     (case slot of
        Some v \<Rightarrow> (Inr v, Some v, False)
      | None \<Rightarrow>
          (case fetch of
             Inl err \<Rightarrow> (Inl err, None, True)
           | Inr v \<Rightarrow> (Inr v, Some v, True)))"

text \<open>The node version slot: the empty string is the empty slot.\<close>

definition versionSlot :: "string \<Rightarrow> string option" where
  "versionSlot v = (if v = [] then None else Some v)"

subsection \<open>Concrete parameters, services and nodes\<close>

text \<open>
  Inputs at which the theorems below are instantiated. The payload types are \<open>unit\<close>
  and a parsed URL is the string it was parsed from.
\<close>

definition example_parameters :: "bool \<Rightarrow> unit parameters" where
  "example_parameters delayed =
     \<lparr>logLevel = 0, monitor = None, timeout = 2000000000, address = ''localhost:5052'',
      indexChunkSize = 0, pubKeyChunkSize = 0, extraHeaders = Map.empty,
      enforceJSON = False, allowDelayedStart = delayed\<rparr>"

definition example_host :: "(unit, string) host" where
  "example_host = \<lparr>registerMetrics = (\<lambda>c m. None), url_Parse = (\<lambda>a. Inr a)\<rparr>"

definition fresh_service :: "(string, unit, unit, unit, unit) Service" where
  "fresh_service = newService (example_parameters False) ''http://localhost:5052/''"

text \<open>A service that is active and synced, with every static value fetched.\<close>

definition warm_service :: "(string, unit, unit, unit, unit) Service" where
  "warm_service =
     fresh_service\<lparr>genesis := Some (), spec := Some (), depositContract := Some (),
       forkSchedule := Some (), nodeVersion := ''Lighthouse/v5.1.0'',
       connectionActive := True, connectionSynced := True,
       connectedToDVTMiddleware := True\<rparr>"

text \<open>The same service while another ping holds the permit.\<close>

definition busy_service :: "(string, unit, unit, unit, unit) Service" where
  "busy_service = warm_service\<lparr>pingSem := \<lparr>size = 1, cur = 1\<rparr>\<rparr>"

definition sync_bootstrapping :: SyncState where
  "sync_bootstrapping =
     \<lparr>HeadSlot = 0, SyncDistance = 1, IsSyncing = True\<rparr>"

definition sync_behind :: SyncState where
  "sync_behind =
     \<lparr>HeadSlot = 100, SyncDistance = 1, IsSyncing = True\<rparr>"

definition sync_done :: SyncState where
  "sync_done =
     \<lparr>HeadSlot = 100, SyncDistance = 0, IsSyncing = False\<rparr>"

definition node_replying :: "SyncState \<Rightarrow> string \<Rightarrow> node" where
  "node_replying r v = \<lparr>NodeSyncing = (\<lambda>c. Inr r), NodeVersion = (\<lambda>c. Inr v)\<rparr>"

definition node_down :: node where
  "node_down =
     \<lparr>NodeSyncing = (\<lambda>c. Inl (errors_New ''connection refused'')),
      NodeVersion = (\<lambda>c. Inl (errors_New ''connection refused''))\<rparr>"

definition node_without_version :: "SyncState \<Rightarrow> node" where
  "node_without_version r =
     \<lparr>NodeSyncing = (\<lambda>c. Inr r),
      NodeVersion = (\<lambda>c. Inl (errors_New ''connection reset''))\<rparr>"

text \<open>A node whose calls fail under a cancelled context and succeed under any other.\<close>

definition node_minding_context :: "SyncState \<Rightarrow> string \<Rightarrow> node" where
  "node_minding_context r v =
     \<lparr>NodeSyncing =
        (\<lambda>c. if c = Caller True then Inl (errors_New ''context canceled'') else Inr r),
      NodeVersion =
        (\<lambda>c. if c = Caller True then Inl (errors_New ''context canceled'') else Inr v)\<rparr>"

section \<open>Properties\<close>

subsection \<open>The branches of a ping\<close>

text \<open>
  A ping takes one of five paths: without the permit; with the permit and a failed
  sync-status call; with a reply on an active service; with a reply on an inactive service
  and a version reply; with a reply on an inactive service and a failed version call.
  Each lemma gives the service and the events of one path.
\<close>

lemmas ping_unfold = ping_def TryAcquire_def Release_def checkDVT_def clearStaticValues_def Let_def

lemma ping_gate_closed:
  "\<not> fst (TryAcquire 1 (pingSem s)) \<Longrightarrow>
   ping nd ctx s =
     (s, [Log Trace ''Updated connection state'',
          MonitorActive (connectionActive s), MonitorSynced (connectionSynced s)])"
  by (auto simp add: ping_unfold split: if_splits)

lemma ping_probe_failed:
  "fst (TryAcquire 1 (pingSem s)) \<Longrightarrow> NodeSyncing nd Background = Inl e \<Longrightarrow>
   ping nd ctx s =
     ((if connectionActive s then clearStaticValues s else s)
        \<lparr>connectionActive := False, connectionSynced := False\<rparr>,
      [CallNodeSyncing Background, Log Debug ''Failed to obtain sync state from node'',
       Log Trace ''Updated connection state'', MonitorActive False, MonitorSynced False])"
  by (auto simp add: ping_unfold split: if_splits)

lemma ping_probe_ok_was_active:
  "fst (TryAcquire 1 (pingSem s)) \<Longrightarrow> NodeSyncing nd Background = Inr r \<Longrightarrow>
   connectionActive s \<Longrightarrow>
   ping nd ctx s =
     (s\<lparr>connectionActive := True,
        connectionSynced := ((\<not> IsSyncing r) \<or> (HeadSlot r = 0 \<and> SyncDistance r \<le> 1))\<rparr>,
      [CallNodeSyncing Background, Log Trace ''Updated connection state'', MonitorActive True,
       MonitorSynced ((\<not> IsSyncing r) \<or> (HeadSlot r = 0 \<and> SyncDistance r \<le> 1))])"
  by (auto simp add: ping_unfold split: if_splits)

lemma ping_activation_ok:
  "fst (TryAcquire 1 (pingSem s)) \<Longrightarrow> NodeSyncing nd Background = Inr r \<Longrightarrow>
   \<not> connectionActive s \<Longrightarrow> NodeVersion nd Background = Inr v \<Longrightarrow>
   ping nd ctx s =
     (s\<lparr>connectedToDVTMiddleware :=
          (connectedToDVTMiddleware s \<or> Contains (ToLower v) ''charon''),
        connectionActive := True,
        connectionSynced := ((\<not> IsSyncing r) \<or> (HeadSlot r = 0 \<and> SyncDistance r \<le> 1))\<rparr>,
      [CallNodeSyncing Background, CallNodeVersion Background,
       Log Trace ''Updated connection state'', MonitorActive True,
       MonitorSynced ((\<not> IsSyncing r) \<or> (HeadSlot r = 0 \<and> SyncDistance r \<le> 1))])"
  by (auto simp add: ping_unfold split: if_splits)

lemma ping_activation_failed:
  "fst (TryAcquire 1 (pingSem s)) \<Longrightarrow> NodeSyncing nd Background = Inr r \<Longrightarrow>
   \<not> connectionActive s \<Longrightarrow> NodeVersion nd Background = Inl e \<Longrightarrow>
   ping nd ctx s =
     (s\<lparr>connectionActive := False,
        connectionSynced := ((\<not> IsSyncing r) \<or> (HeadSlot r = 0 \<and> SyncDistance r \<le> 1))\<rparr>,
      [CallNodeSyncing Background, CallNodeVersion Background,
       Log Error ''Failed to check DVT connection on client activation; returning to inactive'',
       Log Trace ''Updated connection state'', MonitorActive False,
       MonitorSynced ((\<not> IsSyncing r) \<or> (HeadSlot r = 0 \<and> SyncDistance r \<le> 1))])"
  by (auto simp add: ping_unfold split: if_splits)

subsection \<open>Facts about the concrete inputs\<close>

lemmas fixture_defs =
  example_parameters_def example_host_def fresh_service_def warm_service_def busy_service_def
  sync_bootstrapping_def sync_behind_def sync_done_def node_replying_def node_down_def
  node_without_version_def node_minding_context_def newService_def NewWeighted_def

lemma fresh_service_gate_open: "fst (TryAcquire 1 (pingSem fresh_service))"
  by (simp add: fixture_defs TryAcquire_def)

lemma fresh_service_inactive: "\<not> connectionActive fresh_service \<and> \<not> connectionSynced fresh_service"
  by (simp add: fixture_defs)

lemma busy_service_gate_closed: "\<not> fst (TryAcquire 1 (pingSem busy_service))"
  by (simp add: fixture_defs TryAcquire_def)

subsection \<open>The guards and the errors of construction\<close>



lemma assertIsSynced_fast: "connectionSynced s \<Longrightarrow> assertIsSynced nd ctx s = (None, s, [])"
  by (simp add: assertIsSynced_def IsSynced_def)


subsection \<open>C1: the outcome of a probe\<close>

text \<open>
  C1 as stated fails. It says that after every ping whose sync-status call succeeds the
  stored state is active. On a fresh service (inactive, permit free) with a node that
  answers the sync-status call and fails the version call, the ping sees the activation,
  \<^verbatim>\<open>checkDVT\<close> fails, and the ping stores \<^verbatim>\<open>connectionActive = false\<close>.
\<close>

theorem ping_active_after_sync_reply_counterexample:
  "fst (TryAcquire 1 (pingSem fresh_service)) \<and>
   NodeSyncing (node_without_version sync_done) Background = Inr sync_done \<and>
   \<not> connectionActive (fst (ping (node_without_version sync_done) Background fresh_service))"
  using ping_activation_failed [of fresh_service "node_without_version sync_done" sync_done
      "errors_New ''connection reset''" Background]
  by (simp add: fresh_service_gate_open fresh_service_inactive node_without_version_def)

text \<open>
  C1, amended. For every ping that holds the permit: if the sync-status call fails, the
  stored state is inactive and not synced. If it succeeds and the service was already
  active or the version call of the middleware check succeeds, the stored state is
  active, and synced exactly when the node reports that it is not syncing or reports head
  slot 0 with a sync distance of at most 1. If it succeeds on an inactive service and the
  version call fails, the stored state is inactive.
\<close>

theorem ping_probe_outcome:
  assumes "fst (TryAcquire 1 (pingSem s))"
  shows "(NodeSyncing nd Background = Inl e \<longrightarrow>
            \<not> connectionActive (fst (ping nd ctx s)) \<and> \<not> connectionSynced (fst (ping nd ctx s)))
       \<and> (NodeSyncing nd Background = Inr r
            \<and> (connectionActive s \<or> \<not> isl (NodeVersion nd Background)) \<longrightarrow>
            connectionActive (fst (ping nd ctx s))
            \<and> (connectionSynced (fst (ping nd ctx s))
                 \<longleftrightarrow> (\<not> IsSyncing r) \<or> (HeadSlot r = 0 \<and> SyncDistance r \<le> 1)))
       \<and> (NodeSyncing nd Background = Inr r
            \<and> \<not> connectionActive s \<and> isl (NodeVersion nd Background) \<longrightarrow>
            \<not> connectionActive (fst (ping nd ctx s)))"
proof (intro conjI impI)
  assume "NodeSyncing nd Background = Inl e"
  with assms show "\<not> connectionActive (fst (ping nd ctx s))"
    and "\<not> connectionSynced (fst (ping nd ctx s))"
    by (simp_all add: ping_probe_failed)
next
  assume a: "NodeSyncing nd Background = Inr r
    \<and> (connectionActive s \<or> \<not> isl (NodeVersion nd Background))"
  show "connectionActive (fst (ping nd ctx s))"
  proof (cases "connectionActive s")
    case True
    with assms a show ?thesis by (simp add: ping_probe_ok_was_active)
  next
    case False
    with a obtain v where "NodeVersion nd Background = Inr v"
      by (cases "NodeVersion nd Background") auto
    with assms a False show ?thesis by (simp add: ping_activation_ok)
  qed
  show "connectionSynced (fst (ping nd ctx s))
    \<longleftrightarrow> (\<not> IsSyncing r) \<or> (HeadSlot r = 0 \<and> SyncDistance r \<le> 1)"
  proof (cases "connectionActive s")
    case True
    with assms a show ?thesis by (simp add: ping_probe_ok_was_active)
  next
    case False
    with a obtain v where "NodeVersion nd Background = Inr v"
      by (cases "NodeVersion nd Background") auto
    with assms a False show ?thesis by (simp add: ping_activation_ok)
  qed
next
  assume a: "NodeSyncing nd Background = Inr r
    \<and> \<not> connectionActive s \<and> isl (NodeVersion nd Background)"
  then obtain e' where "NodeVersion nd Background = Inl e'"
    by (cases "NodeVersion nd Background") auto
  with assms a show "\<not> connectionActive (fst (ping nd ctx s))"
    by (simp add: ping_activation_failed)
qed

text \<open>
  On a fresh service: the reply \<open>{isSyncing: true, headSlot: 0, syncDistance: 1}\<close> gives
  active and synced, the reply \<open>{isSyncing: true, headSlot: 100, syncDistance: 1}\<close> gives
  active and not synced, a node that is down gives inactive and not synced, and a node
  without a version reply gives inactive.
\<close>

theorem ping_probe_outcome_witness:
  "fst (TryAcquire 1 (pingSem fresh_service))
   \<and> connectionActive (fst (ping (node_replying sync_bootstrapping ''Lighthouse/v5.1.0'') (Caller False) fresh_service))
   \<and> connectionSynced (fst (ping (node_replying sync_bootstrapping ''Lighthouse/v5.1.0'') (Caller False) fresh_service))
   \<and> connectionActive (fst (ping (node_replying sync_behind ''Lighthouse/v5.1.0'') (Caller False) fresh_service))
   \<and> \<not> connectionSynced (fst (ping (node_replying sync_behind ''Lighthouse/v5.1.0'') (Caller False) fresh_service))
   \<and> \<not> connectionActive (fst (ping node_down (Caller False) fresh_service))
   \<and> \<not> connectionSynced (fst (ping node_down (Caller False) fresh_service))
   \<and> \<not> connectionActive (fst (ping (node_without_version sync_done) (Caller False) fresh_service))"
  using
    ping_probe_outcome [OF fresh_service_gate_open,
      where nd = "node_replying sync_bootstrapping ''Lighthouse/v5.1.0''"
        and r = sync_bootstrapping and ctx = "Caller False" and e = ErrNotActive]
    ping_probe_outcome [OF fresh_service_gate_open,
      where nd = "node_replying sync_behind ''Lighthouse/v5.1.0''"
        and r = sync_behind and ctx = "Caller False" and e = ErrNotActive]
    ping_probe_outcome [OF fresh_service_gate_open,
      where nd = node_down and e = "errors_New ''connection refused''"
        and r = sync_done and ctx = "Caller False"]
    ping_probe_outcome [OF fresh_service_gate_open,
      where nd = "node_without_version sync_done" and r = sync_done
        and ctx = "Caller False" and e = ErrNotActive]
  by (simp add: fresh_service_gate_open fresh_service_inactive node_replying_def node_down_def
      node_without_version_def sync_bootstrapping_def sync_behind_def sync_done_def)

subsection \<open>C2: a ping without the permit\<close>

text \<open>
  C2. For every ping that does not get the permit of the semaphore: the service after the
  ping is the service before it, so the stored pair of active and synced keeps its value,
  no static value is cleared and the middleware flag is untouched; the events of the ping
  are the trace log line and the two metrics calls with the old pair, so no sync-status
  call and no version call is made.
\<close>

theorem ping_without_permit_changes_nothing:
  assumes "\<not> fst (TryAcquire 1 (pingSem s))"
  shows "fst (ping nd ctx s) = s
       \<and> connectionActive (fst (ping nd ctx s)) = connectionActive s
       \<and> connectionSynced (fst (ping nd ctx s)) = connectionSynced s
       \<and> snd (ping nd ctx s) =
           [Log Trace ''Updated connection state'',
            MonitorActive (connectionActive s), MonitorSynced (connectionSynced s)]
       \<and> (\<forall>c. CallNodeSyncing c \<notin> set (snd (ping nd ctx s)))
       \<and> (\<forall>c. CallNodeVersion c \<notin> set (snd (ping nd ctx s)))"
  using assms by (simp add: ping_gate_closed)

text \<open>
  A service that is active and synced while another ping holds the permit stays so,
  although the node is down.
\<close>

theorem ping_without_permit_changes_nothing_witness:
  "\<not> fst (TryAcquire 1 (pingSem busy_service))
   \<and> fst (ping node_down (Caller False) busy_service) = busy_service
   \<and> connectionActive (fst (ping node_down (Caller False) busy_service))
   \<and> connectionSynced (fst (ping node_down (Caller False) busy_service))
   \<and> snd (ping node_down (Caller False) busy_service) =
       [Log Trace ''Updated connection state'', MonitorActive True, MonitorSynced True]"
  using ping_without_permit_changes_nothing [OF busy_service_gate_closed,
      where nd = node_down and ctx = "Caller False"]
  by (simp add: busy_service_gate_closed) (simp add: fixture_defs)

subsection \<open>C3: the middleware check on activation\<close>



subsection \<open>C4: synced while inactive\<close>

text \<open>
  C4 does not hold of the code. When a ping sees the activation of an inactive service
  and the version call of \<^verbatim>\<open>checkDVT\<close> fails, the ping sets \<^verbatim>\<open>active\<close> back to false
  and leaves \<^verbatim>\<open>synced\<close> as the sync-status reply gave it. With a node that reports it is
  not syncing, the ping stores inactive and synced. The path of a failed sync-status call
  resets both. A later \<^verbatim>\<open>assertIsSynced\<close> on that state succeeds on its fast path,
  without a ping, whatever the node would answer.
\<close>

theorem ping_commits_synced_while_inactive:
  assumes "\<not> connectionActive s"
    and "fst (TryAcquire 1 (pingSem s))"
    and "NodeSyncing nd Background = Inr r"
    and "\<not> IsSyncing r"
    and "NodeVersion nd Background = Inl e"
  shows "\<not> connectionActive (fst (ping nd ctx s))
       \<and> connectionSynced (fst (ping nd ctx s))
       \<and> assertIsSynced nd' ctx' (fst (ping nd ctx s)) = (None, fst (ping nd ctx s), [])"
proof -
  from assms have "connectionSynced (fst (ping nd ctx s))"
    and "\<not> connectionActive (fst (ping nd ctx s))"
    by (simp_all add: ping_activation_failed)
  then show ?thesis by (simp add: assertIsSynced_fast)
qed

text \<open>The state after the first ping of a fresh service whose node has no version reply.\<close>

theorem ping_commits_synced_while_inactive_witness:
  "\<not> connectionActive fresh_service
   \<and> fst (TryAcquire 1 (pingSem fresh_service))
   \<and> NodeSyncing (node_without_version sync_done) Background = Inr sync_done
   \<and> \<not> IsSyncing sync_done
   \<and> NodeVersion (node_without_version sync_done) Background
       = Inl (errors_New ''connection reset'')
   \<and> \<not> connectionActive (fst (ping (node_without_version sync_done) Background fresh_service))
   \<and> connectionSynced (fst (ping (node_without_version sync_done) Background fresh_service))
   \<and> fst (assertIsSynced node_down Background
            (fst (ping (node_without_version sync_done) Background fresh_service))) = None"
  using ping_commits_synced_while_inactive [where s = fresh_service
      and nd = "node_without_version sync_done" and r = sync_done
      and e = "errors_New ''connection reset''" and ctx = Background
      and nd' = node_down and ctx' = Background]
  by (simp add: fresh_service_gate_open fresh_service_inactive node_without_version_def
      sync_done_def; blast)

subsection \<open>C5: deactivation clears the static values\<close>

text \<open>
  A ping that finds the service active and leaves it inactive is a ping whose sync-status
  call failed: it ran \<^verbatim>\<open>clearStaticValues\<close> and stored the inactive pair.
\<close>

lemma ping_deactivation_is_failed_probe:
  assumes "connectionActive s" and "\<not> connectionActive (fst (ping nd ctx s))"
  shows "fst (ping nd ctx s)
           = (clearStaticValues s)\<lparr>connectionActive := False, connectionSynced := False\<rparr>"
proof (cases "fst (TryAcquire 1 (pingSem s))")
  case False
  with assms show ?thesis by (simp add: ping_gate_closed)
next
  case True
  show ?thesis
  proof (cases "NodeSyncing nd Background")
    case (Inl e)
    with True assms show ?thesis by (simp add: ping_probe_failed)
  next
    case (Inr r)
    with True assms show ?thesis by (simp add: ping_probe_ok_was_active)
  qed
qed

lemma warm_service_gate_open: "fst (TryAcquire 1 (pingSem warm_service))"
  by (simp add: fixture_defs TryAcquire_def)

lemma warm_service_state:
  "connectionActive warm_service \<and> connectionSynced warm_service
   \<and> connectedToDVTMiddleware warm_service"
  by (simp add: fixture_defs)

text \<open>
  C5. For every ping that takes the service from active to inactive, the genesis, the
  spec, the deposit contract and the fork schedule are nil and the node version is the
  empty string after the ping. An accessor with the contract of the specification, called
  on any of the five slots after that ping, makes its fetch and returns what the fetch
  gives, never a cached value.
\<close>

theorem ping_deactivation_clears_static_values:
  assumes "connectionActive s" and "\<not> connectionActive (fst (ping nd ctx s))"
  shows "genesis (fst (ping nd ctx s)) = None
       \<and> spec (fst (ping nd ctx s)) = None
       \<and> depositContract (fst (ping nd ctx s)) = None
       \<and> forkSchedule (fst (ping nd ctx s)) = None
       \<and> nodeVersion (fst (ping nd ctx s)) = []
       \<and> fst (getFact (genesis (fst (ping nd ctx s))) fg) = fg
       \<and> snd (snd (getFact (genesis (fst (ping nd ctx s))) fg))
       \<and> fst (getFact (spec (fst (ping nd ctx s))) fs) = fs
       \<and> snd (snd (getFact (spec (fst (ping nd ctx s))) fs))
       \<and> fst (getFact (depositContract (fst (ping nd ctx s))) fd) = fd
       \<and> snd (snd (getFact (depositContract (fst (ping nd ctx s))) fd))
       \<and> fst (getFact (forkSchedule (fst (ping nd ctx s))) ff) = ff
       \<and> snd (snd (getFact (forkSchedule (fst (ping nd ctx s))) ff))
       \<and> fst (getFact (versionSlot (nodeVersion (fst (ping nd ctx s)))) fv) = fv
       \<and> snd (snd (getFact (versionSlot (nodeVersion (fst (ping nd ctx s)))) fv))"
proof -
  have empty: "fst (getFact None f) = f \<and> snd (snd (getFact None f))"
    for f :: "error + 'x"
    by (cases f) (simp_all add: getFact_def)
  from assms have "fst (ping nd ctx s)
      = (clearStaticValues s)\<lparr>connectionActive := False, connectionSynced := False\<rparr>"
    by (rule ping_deactivation_is_failed_probe)
  then show ?thesis
    by (simp add: clearStaticValues_def versionSlot_def empty)
qed

text \<open>A warm service whose node goes down.\<close>

theorem ping_deactivation_clears_static_values_witness:
  "connectionActive warm_service
   \<and> genesis warm_service = Some ()
   \<and> nodeVersion warm_service = ''Lighthouse/v5.1.0''
   \<and> \<not> connectionActive (fst (ping node_down Background warm_service))
   \<and> genesis (fst (ping node_down Background warm_service)) = None
   \<and> spec (fst (ping node_down Background warm_service)) = None
   \<and> depositContract (fst (ping node_down Background warm_service)) = None
   \<and> forkSchedule (fst (ping node_down Background warm_service)) = None
   \<and> nodeVersion (fst (ping node_down Background warm_service)) = []
   \<and> getFact (genesis (fst (ping node_down Background warm_service))) (Inr ())
       = (Inr (), Some (), True)
   \<and> getFact (versionSlot (nodeVersion (fst (ping node_down Background warm_service))))
         (Inr ''Lighthouse/v5.2.0'')
       = (Inr ''Lighthouse/v5.2.0'', Some ''Lighthouse/v5.2.0'', True)"
proof -
  have down: "\<not> connectionActive (fst (ping node_down Background warm_service))"
    using ping_probe_failed [OF warm_service_gate_open,
        where nd = node_down and e = "errors_New ''connection refused''" and ctx = Background]
    by (simp add: node_down_def)
  note cleared = ping_deactivation_clears_static_values [where s = warm_service
      and nd = node_down and ctx = Background, OF _ down]
  have facts: "genesis warm_service = Some () \<and> nodeVersion warm_service = ''Lighthouse/v5.1.0''"
    by (simp add: fixture_defs)
  from cleared [of "Inr ()" "Inr ()" "Inr ()" "Inr ()" "Inr ''Lighthouse/v5.2.0''"] down facts
  show ?thesis
    by (simp add: warm_service_state getFact_def versionSlot_def)
qed

subsection \<open>C6: the synced guard\<close>




subsection \<open>C7: construction and delayed start\<close>

text \<open>
  When the parameters are accepted, the metrics are registered without error (or there
  is no monitor) and the normalised address parses, \<^verbatim>\<open>New\<close> reaches its ping and its
  result depends on the state after it.
\<close>

lemma New_after_setup:
  assumes "url_Parse h (normalise (parameters.address p)) = Inr b"
    and "case monitor p of None \<Rightarrow> True | Some m \<Rightarrow> registerMetrics h ctx m = None"
    and "s0 = newService p b"
  shows "fst (New h nd ctx (Inr p)) =
           (if \<not> connectionActive (fst (ping nd ctx s0)) \<and> \<not> allowDelayedStart p
            then Inl ErrNotActive
            else Inr (fst (ping nd ctx s0)))"
  using assms
  by (cases "monitor p") (simp_all add: New_def IsActive_def split_beta)

lemma example_url:
  "url_Parse example_host (normalise (parameters.address (example_parameters d)))
     = Inr ''http://localhost:5052/''"
  by (simp add: example_host_def example_parameters_def normalise_def HasPrefix_def
      HasSuffix_def)

lemma example_monitor:
  "(case monitor (example_parameters d) of None \<Rightarrow> True
    | Some m \<Rightarrow> registerMetrics example_host ctx m = None)"
  by (simp add: example_parameters_def)

lemma fresh_service_any_delay:
  "fresh_service = newService (example_parameters d) ''http://localhost:5052/''"
  by (simp add: fresh_service_def newService_def example_parameters_def)

lemma fresh_service_down:
  "\<not> IsActive ctx' (fst (ping node_down ctx fresh_service))"
  using ping_probe_failed [OF fresh_service_gate_open,
      where nd = node_down and e = "errors_New ''connection refused''" and ctx = ctx]
  by (simp add: node_down_def IsActive_def)

text \<open>
  C7. When \<^verbatim>\<open>New\<close> reaches its ping and the ping of the new service leaves it inactive:
  without delayed start \<^verbatim>\<open>New\<close> returns \<^verbatim>\<open>ErrNotActive\<close> and no service; with delayed
  start it returns the service after the ping, and \<^verbatim>\<open>IsActive\<close> of that service is
  false under any context.
\<close>

theorem New_delayed_start_gate:
  assumes "url_Parse h (normalise (parameters.address p)) = Inr b"
    and "case monitor p of None \<Rightarrow> True | Some m \<Rightarrow> registerMetrics h ctx m = None"
    and "s0 = newService p b"
    and "\<not> IsActive ctx (fst (ping nd ctx s0))"
  shows "fst (New h nd ctx (Inr p))
           = (if allowDelayedStart p then Inr (fst (ping nd ctx s0)) else Inl ErrNotActive)
       \<and> \<not> IsActive ctx' (fst (ping nd ctx s0))"
  using assms(4) New_after_setup [OF assms(1) assms(2) assms(3), of nd]
  by (simp add: IsActive_def)

theorem New_delayed_start_gate_witness:
  "url_Parse example_host (normalise (parameters.address (example_parameters False)))
     = Inr ''http://localhost:5052/''
   \<and> monitor (example_parameters False) = None
   \<and> fresh_service = newService (example_parameters True) ''http://localhost:5052/''
   \<and> \<not> IsActive Background (fst (ping node_down Background fresh_service))
   \<and> \<not> allowDelayedStart (example_parameters False)
   \<and> fst (New example_host node_down Background (Inr (example_parameters False)))
       = (Inl ErrNotActive :: error + (string, unit, unit, unit, unit) Service)
   \<and> allowDelayedStart (example_parameters True)
   \<and> fst (New example_host node_down Background (Inr (example_parameters True)))
       = Inr (fst (ping node_down Background fresh_service))
   \<and> \<not> IsActive (Caller False) (fst (ping node_down Background fresh_service))"
  using
    New_delayed_start_gate [where p = "example_parameters False" and h = example_host
      and nd = node_down and ctx = Background and ctx' = "Caller False",
      OF example_url example_monitor fresh_service_any_delay fresh_service_down]
    New_delayed_start_gate [where p = "example_parameters True" and h = example_host
      and nd = node_down and ctx = Background and ctx' = "Caller False",
      OF example_url example_monitor fresh_service_any_delay fresh_service_down]
    example_url [of False] fresh_service_any_delay [of True]
  by (simp add: example_parameters_def fresh_service_down)

subsection \<open>What a ping leaves alone\<close>

text \<open>The service after a ping, by the path the ping took.\<close>

lemma ping_cases:
  obtains
    (gate_closed) "fst (ping nd ctx s) = s"
  | (probe_failed) "fst (ping nd ctx s)
        = (if connectionActive s then clearStaticValues s else s)
            \<lparr>connectionActive := False, connectionSynced := False\<rparr>"
  | (still_active) b where "fst (ping nd ctx s)
        = s\<lparr>connectionActive := True, connectionSynced := b\<rparr>"
  | (activated) b v where "fst (ping nd ctx s)
        = s\<lparr>connectedToDVTMiddleware :=
              (connectedToDVTMiddleware s \<or> Contains (ToLower v) ''charon''),
            connectionActive := True, connectionSynced := b\<rparr>"
  | (activation_failed) b where "fst (ping nd ctx s)
        = s\<lparr>connectionActive := False, connectionSynced := b\<rparr>"
proof (cases "fst (TryAcquire 1 (pingSem s))")
  case False
  then have "fst (ping nd ctx s) = s" by (simp add: ping_gate_closed)
  then show ?thesis by (rule gate_closed)
next
  case True
  show ?thesis
  proof (cases "NodeSyncing nd Background")
    case (Inl e)
    with True show ?thesis by (intro probe_failed) (simp add: ping_probe_failed)
  next
    case (Inr r)
    show ?thesis
    proof (cases "connectionActive s")
      case True
      with \<open>fst (TryAcquire 1 (pingSem s))\<close> Inr show ?thesis
        by (intro still_active) (simp add: ping_probe_ok_was_active)
    next
      case False
      show ?thesis
      proof (cases "NodeVersion nd Background")
        case (Inl e)
        with True Inr False show ?thesis
          by (intro activation_failed) (simp add: ping_activation_failed)
      next
        case v: (Inr v)
        with True Inr False show ?thesis
          by (intro activated) (simp add: ping_activation_ok)
      qed
    qed
  qed
qed

lemma ping_keeps_middleware_flag:
  "connectedToDVTMiddleware s \<Longrightarrow> connectedToDVTMiddleware (fst (ping nd ctx s))"
  by (cases nd ctx s rule: ping_cases) (simp_all add: clearStaticValues_def)

lemma ping_keeps_address:
  "Service.address (fst (ping nd ctx s)) = Service.address s
   \<and> base (fst (ping nd ctx s)) = base s"
  by (cases nd ctx s rule: ping_cases) (simp_all add: clearStaticValues_def)

lemma assertIsActive_service:
  "fst (snd (assertIsActive nd ctx s)) = s
   \<or> fst (snd (assertIsActive nd ctx s)) = fst (ping nd ctx s)"
  by (simp add: assertIsActive_def split_beta)

lemma assertIsSynced_service:
  "fst (snd (assertIsSynced nd ctx s)) = s
   \<or> fst (snd (assertIsSynced nd ctx s)) = fst (ping nd ctx s)"
  by (simp add: assertIsSynced_def split_beta)

lemma apply_op_keeps_middleware_flag:
  "connectedToDVTMiddleware s \<Longrightarrow> connectedToDVTMiddleware (apply_op x s)"
proof (cases x)
  case (Ping nd ctx)
  then show "connectedToDVTMiddleware s \<Longrightarrow> ?thesis"
    by (simp add: ping_keeps_middleware_flag)
next
  case ClearStaticValues
  then show "connectedToDVTMiddleware s \<Longrightarrow> ?thesis"
    by (simp add: clearStaticValues_def)
next
  case (AssertIsActive nd ctx)
  then show "connectedToDVTMiddleware s \<Longrightarrow> ?thesis"
    using assertIsActive_service [of nd ctx s] ping_keeps_middleware_flag [of s nd ctx]
    by auto
next
  case (AssertIsSynced nd ctx)
  then show "connectedToDVTMiddleware s \<Longrightarrow> ?thesis"
    using assertIsSynced_service [of nd ctx s] ping_keeps_middleware_flag [of s nd ctx]
    by auto
qed

lemma run_keeps_middleware_flag:
  "connectedToDVTMiddleware s \<Longrightarrow> connectedToDVTMiddleware (run ops s)"
  by (induction ops arbitrary: s) (simp_all add: apply_op_keeps_middleware_flag)

lemma apply_op_keeps_address:
  "Service.address (apply_op x s) = Service.address s \<and> base (apply_op x s) = base s"
proof (cases x)
  case (Ping nd ctx)
  then show ?thesis by (simp add: ping_keeps_address)
next
  case ClearStaticValues
  then show ?thesis by (simp add: clearStaticValues_def)
next
  case (AssertIsActive nd ctx)
  then show ?thesis
    using assertIsActive_service [of nd ctx s] ping_keeps_address [of nd ctx s] by auto
next
  case (AssertIsSynced nd ctx)
  then show ?thesis
    using assertIsSynced_service [of nd ctx s] ping_keeps_address [of nd ctx s] by auto
qed

lemma run_keeps_address:
  "Service.address (run ops s) = Service.address s \<and> base (run ops s) = base s"
  by (induction ops arbitrary: s) (simp_all add: apply_op_keeps_address)

subsection \<open>C8: the middleware flag is sticky\<close>

text \<open>
  C8. \<^verbatim>\<open>clearStaticValues\<close> leaves \<^verbatim>\<open>connectedToDVTMiddleware\<close> as it is; a ping that
  takes the service from active to inactive leaves it as it is; and once the flag is
  true it is true after any run of pings, clearings and guard calls.
\<close>

theorem connectedToDVTMiddleware_is_sticky:
  "connectedToDVTMiddleware (clearStaticValues s) = connectedToDVTMiddleware s
   \<and> (connectionActive s \<and> \<not> connectionActive (fst (ping nd ctx s)) \<longrightarrow>
        connectedToDVTMiddleware (fst (ping nd ctx s)) = connectedToDVTMiddleware s)
   \<and> (connectedToDVTMiddleware s \<longrightarrow> connectedToDVTMiddleware (run ops s))"
proof (intro conjI impI)
  show "connectedToDVTMiddleware (clearStaticValues s) = connectedToDVTMiddleware s"
    by (simp add: clearStaticValues_def)
next
  assume "connectionActive s \<and> \<not> connectionActive (fst (ping nd ctx s))"
  then have "fst (ping nd ctx s)
      = (clearStaticValues s)\<lparr>connectionActive := False, connectionSynced := False\<rparr>"
    by (simp add: ping_deactivation_is_failed_probe)
  then show "connectedToDVTMiddleware (fst (ping nd ctx s)) = connectedToDVTMiddleware s"
    by (simp add: clearStaticValues_def)
next
  assume "connectedToDVTMiddleware s"
  then show "connectedToDVTMiddleware (run ops s)"
    by (rule run_keeps_middleware_flag)
qed

theorem connectedToDVTMiddleware_is_sticky_witness:
  "connectedToDVTMiddleware warm_service
   \<and> connectionActive warm_service
   \<and> \<not> connectionActive (fst (ping node_down Background warm_service))
   \<and> connectedToDVTMiddleware (clearStaticValues warm_service)
   \<and> connectedToDVTMiddleware (fst (ping node_down Background warm_service))
   \<and> connectedToDVTMiddleware
       (run [Ping node_down Background, ClearStaticValues,
             Ping (node_replying sync_done ''Lighthouse/v5.1.0'') Background,
             AssertIsSynced node_down (Caller False)] warm_service)"
proof -
  have down: "\<not> connectionActive (fst (ping node_down Background warm_service))"
    using ping_probe_failed [OF warm_service_gate_open,
        where nd = node_down and e = "errors_New ''connection refused''" and ctx = Background]
    by (simp add: node_down_def)
  from down connectedToDVTMiddleware_is_sticky [of warm_service node_down Background
      "[Ping node_down Background, ClearStaticValues,
        Ping (node_replying sync_done ''Lighthouse/v5.1.0'') Background,
        AssertIsSynced node_down (Caller False)]"]
  show ?thesis
    by (simp only: warm_service_state simp_thms)
qed

subsection \<open>C9: a ping does not depend on its context\<close>

lemma ping_depends_on_background_replies:
  assumes sync: "NodeSyncing nd Background = NodeSyncing nd' Background"
    and version: "NodeVersion nd Background = NodeVersion nd' Background"
  shows "ping nd ca s = ping nd' cb s"
proof (cases "fst (TryAcquire 1 (pingSem s))")
  case False
  then show ?thesis by (simp add: ping_gate_closed)
next
  case gate: True
  show ?thesis
  proof (cases "NodeSyncing nd Background")
    case (Inl e)
    with sync have "NodeSyncing nd' Background = Inl e" by simp
    with gate Inl show ?thesis by (simp add: ping_probe_failed)
  next
    case (Inr r)
    with sync have sync': "NodeSyncing nd' Background = Inr r" by simp
    show ?thesis
    proof (cases "connectionActive s")
      case True
      with gate Inr sync' show ?thesis by (simp add: ping_probe_ok_was_active)
    next
      case inactive: False
      show ?thesis
      proof (cases "NodeVersion nd Background")
        case (Inl e)
        with version have "NodeVersion nd' Background = Inl e" by simp
        with gate Inr sync' inactive Inl show ?thesis
          by (simp add: ping_activation_failed)
      next
        case v: (Inr v)
        with version have "NodeVersion nd' Background = Inr v" by simp
        with gate Inr sync' inactive v show ?thesis
          by (simp add: ping_activation_ok)
      qed
    qed
  qed
qed

lemma ping_calls_under_background:
  "CallNodeSyncing c \<in> set (snd (ping nd ctx s)) \<or> CallNodeVersion c \<in> set (snd (ping nd ctx s))
   \<Longrightarrow> c = Background"
proof (cases "fst (TryAcquire 1 (pingSem s))")
  case False
  then show "CallNodeSyncing c \<in> set (snd (ping nd ctx s))
      \<or> CallNodeVersion c \<in> set (snd (ping nd ctx s)) \<Longrightarrow> c = Background"
    by (simp add: ping_gate_closed)
next
  case True
  show "CallNodeSyncing c \<in> set (snd (ping nd ctx s))
      \<or> CallNodeVersion c \<in> set (snd (ping nd ctx s)) \<Longrightarrow> c = Background"
  proof (cases "NodeSyncing nd Background")
    case (Inl e)
    with True show "CallNodeSyncing c \<in> set (snd (ping nd ctx s))
        \<or> CallNodeVersion c \<in> set (snd (ping nd ctx s)) \<Longrightarrow> c = Background"
      by (simp add: ping_probe_failed)
  next
    case (Inr r)
    show "CallNodeSyncing c \<in> set (snd (ping nd ctx s))
        \<or> CallNodeVersion c \<in> set (snd (ping nd ctx s)) \<Longrightarrow> c = Background"
    proof (cases "connectionActive s")
      case True
      with \<open>fst (TryAcquire 1 (pingSem s))\<close> Inr
      show "CallNodeSyncing c \<in> set (snd (ping nd ctx s))
          \<or> CallNodeVersion c \<in> set (snd (ping nd ctx s)) \<Longrightarrow> c = Background"
        by (simp add: ping_probe_ok_was_active)
    next
      case False
      with True Inr
      show "CallNodeSyncing c \<in> set (snd (ping nd ctx s))
          \<or> CallNodeVersion c \<in> set (snd (ping nd ctx s)) \<Longrightarrow> c = Background"
        by (cases "NodeVersion nd Background")
          (auto simp add: ping_activation_failed ping_activation_ok)
    qed
  qed
qed

text \<open>
  C9. For any two contexts, the same service and the same node, \<^verbatim>\<open>ping\<close> gives the same
  service and the same events; more, two nodes that agree on their replies under the
  background context give the same ping, whatever they reply under other contexts; and
  every sync-status call and version call of a ping is made under the background context.
\<close>

theorem ping_ignores_its_context:
  "ping nd ca s = ping nd cb s
   \<and> (NodeSyncing nd Background = NodeSyncing nd' Background
        \<and> NodeVersion nd Background = NodeVersion nd' Background \<longrightarrow>
        ping nd ca s = ping nd' cb s)
   \<and> (\<forall>c. CallNodeSyncing c \<in> set (snd (ping nd ca s))
            \<or> CallNodeVersion c \<in> set (snd (ping nd ca s)) \<longrightarrow> c = Background)"
  using ping_calls_under_background [of _ nd ca s]
  by (auto simp add: ping_depends_on_background_replies)

text \<open>
  A node whose calls fail under a cancelled context: the ping under a cancelled context
  is the ping under the background context, and it activates the service.
\<close>

theorem ping_ignores_its_context_witness:
  "NodeSyncing (node_minding_context sync_done ''Lighthouse/v5.1.0'') (Caller True)
     = Inl (errors_New ''context canceled'')
   \<and> NodeSyncing (node_minding_context sync_done ''Lighthouse/v5.1.0'') Background
       = NodeSyncing (node_replying sync_done ''Lighthouse/v5.1.0'') Background
   \<and> NodeVersion (node_minding_context sync_done ''Lighthouse/v5.1.0'') Background
       = NodeVersion (node_replying sync_done ''Lighthouse/v5.1.0'') Background
   \<and> ping (node_minding_context sync_done ''Lighthouse/v5.1.0'') (Caller True) fresh_service
       = ping (node_minding_context sync_done ''Lighthouse/v5.1.0'') Background fresh_service
   \<and> ping (node_minding_context sync_done ''Lighthouse/v5.1.0'') (Caller True) fresh_service
       = ping (node_replying sync_done ''Lighthouse/v5.1.0'') (Caller False) fresh_service
   \<and> connectionActive
       (fst (ping (node_minding_context sync_done ''Lighthouse/v5.1.0'') (Caller True)
               fresh_service))"
proof -
  have up: "connectionActive
      (fst (ping (node_replying sync_done ''Lighthouse/v5.1.0'') (Caller False) fresh_service))"
    using ping_activation_ok [OF fresh_service_gate_open,
        where nd = "node_replying sync_done ''Lighthouse/v5.1.0''" and r = sync_done
          and v = "''Lighthouse/v5.1.0''" and ctx = "Caller False"]
    by (simp add: node_replying_def fresh_service_inactive)
  have replies:
    "NodeSyncing (node_minding_context sync_done ''Lighthouse/v5.1.0'') Background
       = NodeSyncing (node_replying sync_done ''Lighthouse/v5.1.0'') Background
     \<and> NodeVersion (node_minding_context sync_done ''Lighthouse/v5.1.0'') Background
       = NodeVersion (node_replying sync_done ''Lighthouse/v5.1.0'') Background
     \<and> NodeSyncing (node_minding_context sync_done ''Lighthouse/v5.1.0'') (Caller True)
       = Inl (errors_New ''context canceled'')"
    by (simp add: node_minding_context_def node_replying_def)
  have same_context:
    "ping (node_minding_context sync_done ''Lighthouse/v5.1.0'') (Caller True) fresh_service
       = ping (node_minding_context sync_done ''Lighthouse/v5.1.0'') Background fresh_service"
    using ping_ignores_its_context [where nd = "node_minding_context sync_done ''Lighthouse/v5.1.0''"
      and ca = "Caller True" and s = fresh_service and cb = Background
      and nd' = "node_replying sync_done ''Lighthouse/v5.1.0''"]
    by blast
  have same_replies:
    "ping (node_minding_context sync_done ''Lighthouse/v5.1.0'') (Caller True) fresh_service
       = ping (node_replying sync_done ''Lighthouse/v5.1.0'') (Caller False) fresh_service"
    using replies
      ping_ignores_its_context [where nd = "node_minding_context sync_done ''Lighthouse/v5.1.0''"
        and ca = "Caller True" and s = fresh_service and cb = "Caller False"
        and nd' = "node_replying sync_done ''Lighthouse/v5.1.0''"]
    by blast
  from up same_replies have "connectionActive
      (fst (ping (node_minding_context sync_done ''Lighthouse/v5.1.0'') (Caller True)
              fresh_service))"
    by simp
  with replies same_context same_replies show ?thesis by blast
qed

subsection \<open>C10: the address\<close>

text \<open>
  C10. For every service that \<^verbatim>\<open>New\<close> returns, \<^verbatim>\<open>Address\<close> is the address string of the
  parameters, at once and after any run of pings, clearings and guard calls; the URL in
  \<^verbatim>\<open>base\<close> is the one parsed from the normalised address, and it does not change either.
\<close>

theorem Address_is_the_supplied_address:
  assumes "fst (New h nd ctx (Inr p)) = Inr s"
  shows "Address s = parameters.address p
       \<and> Address (run ops s) = parameters.address p
       \<and> url_Parse h (normalise (parameters.address p)) = Inr (base s)
       \<and> base (run ops s) = base s"
proof -
  from assms obtain b where b: "url_Parse h (normalise (parameters.address p)) = Inr b"
    and s: "s = fst (ping nd ctx (newService p b))"
    by (auto simp add: New_def Let_def split_beta
        split: option.splits sum.splits if_splits)
  from s have "Service.address s = parameters.address p" and "base s = b"
    by (simp_all add: ping_keeps_address newService_def)
  with b show ?thesis
    by (simp add: Address_def run_keeps_address)
qed

text \<open>
  The address \<^verbatim>\<open>localhost:5052\<close> is normalised to \<^verbatim>\<open>http://localhost:5052/\<close> for the
  URL and returned as given by \<^verbatim>\<open>Address\<close>.
\<close>

theorem Address_is_the_supplied_address_witness:
  "fst (New example_host (node_replying sync_done ''Lighthouse/v5.1.0'') Background
          (Inr (example_parameters False)))
     = Inr (fst (ping (node_replying sync_done ''Lighthouse/v5.1.0'') Background fresh_service))
   \<and> Address (fst (ping (node_replying sync_done ''Lighthouse/v5.1.0'') Background fresh_service))
       = ''localhost:5052''
   \<and> normalise ''localhost:5052'' = ''http://localhost:5052/''
   \<and> base (fst (ping (node_replying sync_done ''Lighthouse/v5.1.0'') Background fresh_service))
       = ''http://localhost:5052/''
   \<and> Address
        (run [Ping node_down (Caller True), ClearStaticValues,
              AssertIsActive (node_replying sync_behind ''Charon/v1.0'') Background]
           (fst (ping (node_replying sync_done ''Lighthouse/v5.1.0'') Background fresh_service)))
       = ''localhost:5052''"
proof -
  have up: "connectionActive
      (fst (ping (node_replying sync_done ''Lighthouse/v5.1.0'') Background fresh_service))"
    using ping_activation_ok [OF fresh_service_gate_open,
        where nd = "node_replying sync_done ''Lighthouse/v5.1.0''" and r = sync_done
          and v = "''Lighthouse/v5.1.0''" and ctx = Background]
    by (simp add: node_replying_def fresh_service_inactive)
  have new: "fst (New example_host (node_replying sync_done ''Lighthouse/v5.1.0'') Background
          (Inr (example_parameters False)))
     = Inr (fst (ping (node_replying sync_done ''Lighthouse/v5.1.0'') Background fresh_service))"
    using up New_after_setup [where p = "example_parameters False" and ctx = Background
        and nd = "node_replying sync_done ''Lighthouse/v5.1.0''",
        OF example_url example_monitor fresh_service_any_delay]
    by simp
  have norm: "normalise ''localhost:5052'' = ''http://localhost:5052/''"
    by (simp add: normalise_def HasPrefix_def HasSuffix_def)
  from new norm
    Address_is_the_supplied_address [OF new,
      where ops = "[Ping node_down (Caller True), ClearStaticValues,
           AssertIsActive (node_replying sync_behind ''Charon/v1.0'') Background]"]
  show ?thesis
    by (simp add: example_parameters_def example_host_def)
qed

end
